theory Spec2Isabelle
  imports Complex_Main
begin

section \<open>Text and numbers as the page code sees them\<close>

text \<open>
  A JavaScript string is modelled as a \<^typ>\<open>string\<close>. A character outside ASCII is
  written as the bytes of its UTF-8 encoding, the way the source file stores it.
\<close>

definition uuml :: string where
  "uuml = [CHR 0xC3, CHR 0xBC]"

definition ouml :: string where
  "ouml = [CHR 0xC3, CHR 0xB6]"

definition szlig :: string where
  "szlig = [CHR 0xC3, CHR 0x9F]"

definition ndash :: string where
  "ndash = [CHR 0xE2, CHR 0x80, CHR 0x93]"

definition mdash :: string where
  "mdash = [CHR 0xE2, CHR 0x80, CHR 0x94]"

definition nbhyphen :: string where
  "nbhyphen = [CHR 0xE2, CHR 0x80, CHR 0x91]"

definition copyright_sign :: string where
  "copyright_sign = [CHR 0xC2, CHR 0xA9]"

definition rocket :: string where
  "rocket = [CHR 0xF0, CHR 0x9F, CHR 0x9A, CHR 0x80]"

definition ldquo :: string where
  "ldquo = [CHR 0xE2, CHR 0x80, CHR 0x9C]"

definition dquote :: string where
  "dquote = [CHR 0x22]"

definition squote :: string where
  "squote = [CHR 0x27]"

text \<open>Decimal digits: the text of a non-negative integer, most significant digit first.\<close>

definition digit_char :: "nat \<Rightarrow> char" where
  "digit_char d = char_of (48 + d)"

definition digit_val :: "char \<Rightarrow> nat" where
  "digit_val c = of_char c - 48"

definition is_digit :: "char \<Rightarrow> bool" where
  "is_digit c = (48 \<le> (of_char c :: nat) \<and> (of_char c :: nat) \<le> 57)"

fun string_of_nat :: "nat \<Rightarrow> string" where
  "string_of_nat n =
     (if n < 10 then [digit_char n]
      else string_of_nat (n div 10) @ [digit_char (n mod 10)])"

definition nat_of_digits :: "string \<Rightarrow> nat" where
  "nat_of_digits s = foldl (\<lambda>a c. 10 * a + digit_val c) 0 s"

text \<open>
  \<open>Number.prototype.toString\<close> on an integer, which is what a template literal
  applies to the value of \<open>getFullYear()\<close>: a minus sign for a negative number,
  then the decimal digits.
\<close>

definition Number_toString :: "int \<Rightarrow> string" where
  "Number_toString i =
     (if i < 0 then CHR ''-'' # string_of_nat (nat (- i)) else string_of_nat (nat i))"

text \<open>Reading a decimal number back: \<open>None\<close> unless the text is one or more digits.\<close>

definition parse_nat :: "string \<Rightarrow> nat option" where
  "parse_nat s = (if s \<noteq> [] \<and> list_all is_digit s then Some (nat_of_digits s) else None)"

text \<open>Splitting a text at a separator character, as a class attribute is split at blanks.\<close>

fun split_on :: "char \<Rightarrow> string \<Rightarrow> string \<Rightarrow> string list" where
  "split_on sep acc [] = [rev acc]"
| "split_on sep acc (c # cs) =
     (if c = sep then rev acc # split_on sep [] cs else split_on sep (c # acc) cs)"

definition class_tokens :: "string \<Rightarrow> string list" where
  "class_tokens s = filter (\<lambda>t. t \<noteq> []) (split_on CHR '' '' [] s)"

text \<open>
  \<open>clsx\<close> joins its non-empty string arguments with single blanks; with one
  argument it returns that argument.
\<close>

fun join_blank :: "string list \<Rightarrow> string" where
  "join_blank [] = []"
| "join_blank [s] = s"
| "join_blank (s # t # ts) = s @ '' '' @ join_blank (t # ts)"

definition clsx :: "string list \<Rightarrow> string" where
  "clsx args = join_blank (filter (\<lambda>s. s \<noteq> []) args)"

section \<open>The element tree a component returns\<close>

text \<open>
  A property value is a string literal or a lookup in the CSS module imported as
  \<open>styles\<close> (\<open>styles.featureSvg\<close>), whose generated class name the bundler chooses.
\<close>

datatype prop_value = Str string | Style string

text \<open>
  An element is a host tag (\<open>div\<close>, \<open>p\<close>, \<open>section\<close>) or a component imported from
  another module, named here by the module it comes from.
\<close>

datatype el_type = Tag string | Component string

text \<open>
  \<open>Keyed k j\<close> is the element \<open><Feature key={k} {...props} />\<close>, shown through the
  tree \<open>j\<close> that \<open>Feature\<close> returns for those props.
\<close>

datatype jsx =
    Text string
  | Fragment "jsx list"
  | Elem el_type "(string \<times> prop_value) list" "jsx list"
  | Keyed nat jsx

fun kids :: "jsx \<Rightarrow> jsx list" where
  "kids (Text s) = []"
| "kids (Fragment cs) = cs"
| "kids (Elem t ps cs) = cs"
| "kids (Keyed k j) = kids j"

definition child :: "nat \<Rightarrow> jsx \<Rightarrow> jsx option" where
  "child i j = (if i < length (kids j) then Some (kids j ! i) else None)"

fun key_of :: "jsx \<Rightarrow> nat option" where
  "key_of (Keyed k j) = Some k"
| "key_of j = None"

fun unkeyed :: "jsx \<Rightarrow> jsx" where
  "unkeyed (Keyed k j) = unkeyed j"
| "unkeyed j = j"

fun type_of :: "jsx \<Rightarrow> el_type option" where
  "type_of (Elem t ps cs) = Some t"
| "type_of (Keyed k j) = type_of j"
| "type_of j = None"

fun props_of :: "jsx \<Rightarrow> (string \<times> prop_value) list" where
  "props_of (Elem t ps cs) = ps"
| "props_of (Keyed k j) = props_of j"
| "props_of j = []"

text \<open>The text a tree shows: its text nodes, in document order.\<close>

fun text_of :: "jsx \<Rightarrow> string" where
  "text_of (Text s) = s"
| "text_of (Fragment cs) = concat (map text_of cs)"
| "text_of (Elem t ps cs) = concat (map text_of cs)"
| "text_of (Keyed k j) = text_of j"

definition classes_of :: "jsx \<Rightarrow> string list" where
  "classes_of j =
     (case map_of (props_of j) ''className'' of
        Some (Str s) \<Rightarrow> class_tokens s
      | _ \<Rightarrow> [])"

definition centered :: "jsx \<Rightarrow> bool" where
  "centered j = (''text--center'' \<in> set (classes_of j))"

text \<open>
  Modelled from the spec: the stylesheet of the site's theme, which gives a class its
  width, is not among the repository's sources. The spec has a card take one third of
  the row when three are shown; that is the class \<open>col--4\<close> on a row of twelve
  columns, where the class \<open>col--N\<close> takes \<open>N\<close> of them.
\<close>

definition grid_columns :: nat where
  "grid_columns = 12"

definition col_span :: "string \<Rightarrow> nat option" where
  "col_span t = (if take 5 t = ''col--'' then parse_nat (drop 5 t) else None)"

definition row_fraction :: "jsx \<Rightarrow> rat option" where
  "row_fraction j =
     (case List.map_filter col_span (classes_of j) of
        [] \<Rightarrow> None
      | n # _ \<Rightarrow> Some (of_nat n / of_nat grid_columns))"

section \<open>HomepageFeatures\<close>

record FeatureItem =
  title :: string
  Svg :: string
  description :: jsx

definition mountain_svg :: string where
  "mountain_svg = ''@site/static/img/undraw_docusaurus_mountain.svg''"

definition FeatureList :: "FeatureItem list" where
  "FeatureList =
     [ \<lparr> title = ''Was ich mache'',
         Svg = mountain_svg,
         description = Fragment [Text ''Backend, Cloud, Data Platforms''] \<rparr>,
       \<lparr> title = ''Woran ich glaube'',
         Svg = mountain_svg,
         description =
           Fragment [Text ''Open Source first, Sicherheit, Skalierbarkeit, Teamarbeit''] \<rparr>,
       \<lparr> title = ''Was ich suche'',
         Svg = mountain_svg,
         description =
           Fragment [Text (''offen f'' @ uuml @ ''r neue Backend-/Cloud-Rollen'')] \<rparr> ]"

definition Feature :: "FeatureItem \<Rightarrow> jsx" where
  "Feature item =
     Elem (Tag ''div'') [(''className'', Str (clsx [''col col--4'']))]
       [ Elem (Tag ''div'') [(''className'', Str ''text--center'')]
           [ Elem (Component (Svg item))
               [(''className'', Style ''featureSvg''), (''role'', Str ''img'')] [] ],
         Elem (Tag ''div'') [(''className'', Str ''text--center padding-horiz--md'')]
           [ Elem (Component ''@theme/Heading'') [(''as'', Str ''h3'')] [Text (title item)],
             Elem (Tag ''p'') [] [description item] ] ]"

text \<open>
  \<open>Array.prototype.map\<close> with a callback that takes the element and its index: the
  loop over the array, the index counting up from where it starts.
\<close>

fun Array_map_from :: "nat \<Rightarrow> ('a \<Rightarrow> nat \<Rightarrow> 'b) \<Rightarrow> 'a list \<Rightarrow> 'b list" where
  "Array_map_from i f [] = []"
| "Array_map_from i f (x # xs) = f x i # Array_map_from (Suc i) f xs"

definition Array_map :: "('a \<Rightarrow> nat \<Rightarrow> 'b) \<Rightarrow> 'a list \<Rightarrow> 'b list" where
  "Array_map f xs = Array_map_from 0 f xs"

text \<open>
  The body of \<open>HomepageFeatures\<close>, for the array that the name \<open>FeatureList\<close> holds
  when the component runs.
\<close>

definition HomepageFeatures_of :: "FeatureItem list \<Rightarrow> jsx" where
  "HomepageFeatures_of fl =
     Elem (Tag ''section'') [(''className'', Style ''features'')]
       [ Elem (Tag ''div'') [(''className'', Str ''container'')]
           [ Elem (Tag ''div'') [(''className'', Str ''row'')]
               (Array_map (\<lambda>props idx. Keyed idx (Feature props)) fl) ] ]"

definition HomepageFeatures :: jsx where
  "HomepageFeatures = HomepageFeatures_of FeatureList"

text \<open>The cards of a rendered section: the children of its row.\<close>

definition cards :: "jsx \<Rightarrow> jsx list" where
  "cards j = (case Option.bind (child 0 j) (child 0) of None \<Rightarrow> [] | Some row \<Rightarrow> kids row)"

definition card_icon :: "jsx \<Rightarrow> jsx option" where
  "card_icon c = Option.bind (child 0 c) (child 0)"

definition card_heading :: "jsx \<Rightarrow> jsx option" where
  "card_heading c = Option.bind (child 1 c) (child 0)"

definition card_paragraph :: "jsx \<Rightarrow> jsx option" where
  "card_paragraph c = Option.bind (child 1 c) (child 1)"

section \<open>The site configuration\<close>

datatype ReportingSeverity = Ignore | Log | Warn | Throw

datatype PrismTheme = Github | Dracula

datatype link_target = To string | Href string

record Future =
  v4 :: bool

record I18n =
  defaultLocale :: string
  locales :: "string list"

record FeedOptions =
  feed_type :: "string list"
  xslt :: bool

record BlogOptions =
  showReadingTime :: bool
  feedOptions :: FeedOptions
  editUrl :: string
  onInlineTags :: ReportingSeverity
  onInlineAuthors :: ReportingSeverity
  onUntruncatedBlogPosts :: ReportingSeverity

record ThemeOptions =
  customCss :: string

record PresetOptions =
  docs :: bool
  blog :: BlogOptions
  theme :: ThemeOptions

record ColorMode =
  defaultMode :: string
  disableSwitch :: bool
  respectPrefersColorScheme :: bool

record Logo =
  alt :: string
  src :: string

record NavbarItem =
  nav_target :: link_target
  nav_label :: string
  position :: string

record Navbar =
  navbar_title :: string
  logo :: Logo
  navbar_items :: "NavbarItem list"

record FooterLink =
  footer_label :: string
  footer_target :: link_target

record FooterColumn =
  column_title :: string
  column_items :: "FooterLink list"

record Footer =
  footer_style :: string
  links :: "FooterColumn list"
  copyright :: string

record Prism =
  prism_theme :: PrismTheme
  darkTheme :: PrismTheme
  additionalLanguages :: "string list"

record AnnouncementBar =
  bar_id :: string
  bar_content :: string
  isCloseable :: bool

record ThemeConfig =
  social_image :: string
  colorMode :: ColorMode
  navbar :: Navbar
  footer :: Footer
  prism :: Prism
  announcementBar :: AnnouncementBar

record Config =
  site_title :: string
  tagline :: string
  favicon :: string
  future :: Future
  url :: string
  baseUrl :: string
  organizationName :: string
  projectName :: string
  trailingSlash :: bool
  onBrokenLinks :: ReportingSeverity
  onBrokenMarkdownLinks :: ReportingSeverity
  i18n :: I18n
  presets :: "(string \<times> PresetOptions) list"
  themeConfig :: ThemeConfig

definition repo_tree_url :: string where
  "repo_tree_url =
     ''https://github.com/bri-b-dev/bri-b-dev.github.io/tree/main/packages/''
     @ ''create-docusaurus/templates/shared/''"

text \<open>
  The configuration object is built when the module is evaluated. The one thing it
  reads from outside is the clock: \<open>year\<close> is the value of
  \<open>new Date().getFullYear()\<close> at that moment.
\<close>

definition config :: "int \<Rightarrow> Config" where
  "config year =
     \<lparr> site_title = ''Brigitte B'' @ ouml @ ''hm'' @ squote @ ''s homepage'',
       tagline = ''Cloud & Data Platform Engineer'',
       favicon = ''img/favicon.svg'',
       future = \<lparr> v4 = True \<rparr>,
       url = ''https://bri-b-dev.github.io'',
       baseUrl = ''/'',
       organizationName = ''bri-b-dev'',
       projectName = ''bri-b-dev.github.io'',
       trailingSlash = False,
       onBrokenLinks = Throw,
       onBrokenMarkdownLinks = Warn,
       i18n = \<lparr> defaultLocale = ''en'', locales = [''en''] \<rparr>,
       presets =
         [ (''classic'',
            \<lparr> docs = False,
              blog =
                \<lparr> showReadingTime = True,
                  feedOptions = \<lparr> feed_type = [''rss'', ''atom''], xslt = True \<rparr>,
                  editUrl = repo_tree_url,
                  onInlineTags = Warn,
                  onInlineAuthors = Warn,
                  onUntruncatedBlogPosts = Warn \<rparr>,
              theme = \<lparr> customCss = ''./src/css/custom.css'' \<rparr> \<rparr>) ],
       themeConfig =
         \<lparr> social_image = ''img/docusaurus-social-card.jpg'',
           colorMode =
             \<lparr> defaultMode = ''dark'',
               disableSwitch = False,
               respectPrefersColorScheme = True \<rparr>,
           navbar =
             \<lparr> navbar_title = ''Home'',
               logo = \<lparr> alt = ''My Site Logo'', src = ''img/logo.svg'' \<rparr>,
               navbar_items =
                 [ \<lparr> nav_target = To ''/about'', nav_label = ''About'', position = ''left'' \<rparr>,
                   \<lparr> nav_target = To ''/blog'', nav_label = ''Blog'', position = ''left'' \<rparr>,
                   \<lparr> nav_target = Href ''mailto:brigitte_boehm@outlook.de'',
                     nav_label = ''Kontakt'', position = ''right'' \<rparr>,
                   \<lparr> nav_target = Href ''https://github.com/bri-b-dev'',
                     nav_label = ''GitHub'', position = ''right'' \<rparr> ] \<rparr>,
           footer =
             \<lparr> footer_style = ''dark'',
               links =
                 [ \<lparr> column_title = ''Navigation'',
                     column_items =
                       [ \<lparr> footer_label = ''About'', footer_target = To ''/about'' \<rparr>,
                         \<lparr> footer_label = ''Blog'', footer_target = To ''/blog'' \<rparr> ] \<rparr>,
                   \<lparr> column_title = ''Kontakt'',
                     column_items =
                       [ \<lparr> footer_label = ''E'' @ nbhyphen @ ''Mail'',
                           footer_target = Href ''mailto:brigitte_boehm@outlook.de'' \<rparr>,
                         \<lparr> footer_label = ''LinkedIn'',
                           footer_target =
                             Href ''https://www.linkedin.com/in/brigitte-boehm-34b7a025/'' \<rparr>,
                         \<lparr> footer_label = ''GitHub'',
                           footer_target = Href ''https://github.com/bri-b-dev'' \<rparr> ] \<rparr> ],
               copyright =
                 copyright_sign @ '' '' @ Number_toString year @ '' Brigitte B'' @ ouml @ ''hm'' \<rparr>,
           prism =
             \<lparr> prism_theme = Github,
               darkTheme = Dracula,
               additionalLanguages = [''java'', ''kotlin'', ''bash'', ''json'', ''yaml''] \<rparr>,
           announcementBar =
             \<lparr> bar_id = ''job-hint'',
               bar_content =
                 rocket @ '' Offen f'' @ uuml @ ''r spannende Rollen in Backend & Cloud ''
                 @ ndash @ '' <a href='' @ dquote @ ''mailto:brigitte.boehm@outlook.de''
                 @ dquote @ ''>Kontakt</a>'',
               isCloseable = True \<rparr> \<rparr> \<rparr>"

definition preset_options :: "Config \<Rightarrow> string \<Rightarrow> PresetOptions option" where
  "preset_options cfg name = map_of (presets cfg) name"

text \<open>
  Modelled from the spec: the reaction of the external build framework to a reporting
  level, which is not code of this repository. The spec says that it treats a finding
  reported at the level \<open>throw\<close> as a fatal build error and one reported at \<open>warn\<close>
  as a warning; the two lower levels let the build go on without a warning.
\<close>

datatype build_result = Completed "string list" | Aborted string

fun report :: "ReportingSeverity \<Rightarrow> string \<Rightarrow> build_result" where
  "report Ignore msg = Completed []"
| "report Log msg = Completed []"
| "report Warn msg = Completed [msg]"
| "report Throw msg = Aborted msg"

text \<open>
  Modelled from the spec: the framework's check of internal links, which is not code of
  this repository either. The spec says that the build fails if an internal link
  target does not exist: every target must be one of the routes of the site, and the
  first one that is not is reported at the level the configuration sets.
\<close>

definition check_internal_links :: "Config \<Rightarrow> string list \<Rightarrow> string list \<Rightarrow> build_result" where
  "check_internal_links cfg routes targets =
     (case filter (\<lambda>t. t \<notin> set routes) targets of
        [] \<Rightarrow> Completed []
      | t # _ \<Rightarrow> report (onBrokenLinks cfg) t)"

section \<open>The blog posts\<close>

text \<open>
  A post is a Markdown document that begins with a front-matter block between two
  lines \<open>---\<close>. Each post is recorded with the file it is read from, the line where
  it starts there, and its lines up to the closing fence, as they are in the file.

  The default content set is the directory \<open>blog/\<close>, whose posts are written in
  German; the English one is \<open>i18n/en/docusaurus-plugin-content-blog/\<close>. A document
  whose file name is not known is put in the set of the language it is written in.
\<close>

datatype content_set = Blog_default | I18n_en

record blog_post =
  source_file :: string
  first_line :: nat
  content_set :: content_set
  head_lines :: "string list"

definition de_springboot :: blog_post where
  "de_springboot =
     \<lparr> source_file = ''blog/2025-01-20-springboot-fileupload-azure.md'',
       first_line = 1,
       content_set = Blog_default,
       head_lines =
         [ ''---'',
           ''slug: springboot-fileupload-azure'',
           ''title: '' @ dquote @ ''Streaming File Uploads nach Azure Blob Storage mit Spring ''
             @ ''Boot'' @ dquote,
           ''authors: brigitte'',
           ''tags: [spring-boot, kotlin, java, azure, blob-storage, '' @ ''fileupload]'',
           ''date: 2025-01-20'',
           ''description: '' @ dquote @ ''Speicherschonende Verarbeitung gro'' @ szlig
             @ ''er Uploads direkt in Azure Storage '' @ ndash
             @ '' ohne Zwischenspeicherung im RAM.'' @ dquote,
           ''---'' ] \<rparr>"

definition de_aks_node_selection :: blog_post where
  "de_aks_node_selection =
     \<lparr> source_file = ''blog/2025-01-27-aks-node-selection.md'',
       first_line = 1,
       content_set = Blog_default,
       head_lines =
         [ ''---'',
           ''slug: aks-node-selection'',
           ''title: '' @ dquote @ ''AKS Node Selection: Physische Pools vs. Virtual Nodes''
             @ dquote,
           ''authors: brigitte'',
           ''tags: [kubernetes, aks, azure, nodepool, virtual-node, '' @ ''scheduling]'',
           ''date: 2025-01-27'',
           ''description: '' @ dquote
             @ ''Strategien, um Workloads in AKS bevorzugt auf physischen ''
             @ ''User-Nodes laufen zu lassen '' @ ndash
             @ '' mit automatischem Fallback auf Virtual Nodes.'' @ dquote,
           ''---'' ] \<rparr>"

definition de_field_filtering :: blog_post where
  "de_field_filtering =
     \<lparr> source_file = ''blog/2025-02-17-field-filtering.md'',
       first_line = 1,
       content_set = Blog_default,
       head_lines =
         [ ''---'',
           ''slug: field-filtering-rest-jackson'',
           ''title: '' @ dquote
             @ ''Field-Filtering in REST-APIs mit Jackson & @ControllerAdvice'' @ dquote,
           ''authors: brigitte'',
           ''tags: [spring-boot, kotlin, java, rest, jackson, json]'',
           ''date: 2025-02-17'',
           ''description: '' @ dquote @ ''Dynamische Reduktion von Response-Feldern '' @ uuml
             @ ''ber Query-Parameter '' @ ndash @ '' elegante L'' @ ouml
             @ ''sung mit Mixins und MappingJacksonValue.'' @ dquote,
           ''---'' ] \<rparr>"

definition de_terraform :: blog_post where
  "de_terraform =
     \<lparr> source_file = ''unnamed/part_003'',
       first_line = 1,
       content_set = Blog_default,
       head_lines =
         [ ''---'',
           '''',
           ''slug: terraform-patterns-aks-azure'',
           ''title: '' @ dquote @ ''Terraform Patterns f'' @ uuml @ ''r AKS & Azure'' @ dquote,
           ''authors: brigitte'',
           ''tags: [terraform, aks, azure, rbac, network-policy, '' @ ''modules, cicd]'',
           ''date: 2025-02-03'',
           ''description: '' @ dquote @ ''Erfahrungen mit modularen Terraform-Setups f'' @ uuml
             @ ''r AKS '' @ ndash @ '' von Modul-Design '' @ uuml
             @ ''ber RBAC bis zu Network Policies und CI/CD.'' @ dquote,
           ''---'' ] \<rparr>"

definition de_workload_identity :: blog_post where
  "de_workload_identity =
     \<lparr> source_file = ''unnamed/part_002'',
       first_line = 1,
       content_set = Blog_default,
       head_lines =
         [ ''---'',
           ''slug: workload-identity-lessons-learned'',
           ''title: '' @ dquote @ ''Workload Identity in AKS '' @ ndash @ '' Lessons Learned''
             @ dquote,
           ''authors: brigitte'',
           ''tags: [kubernetes, azure, aks, security, identity, '' @ ''lessons-learned]'',
           ''date: 2024-11-10'',
           ''description: '' @ dquote
             @ ''Setup, Stolpersteine und Best Practices aus Projekten'' @ dquote,
           ''---'' ] \<rparr>"

definition en_springboot :: blog_post where
  "en_springboot =
     \<lparr> source_file = ''i18n/en/docusaurus-plugin-content-blog/2025-01-20-springboot-fileupload-azure.md'',
       first_line = 1,
       content_set = I18n_en,
       head_lines =
         [ ''---'',
           ''slug: springboot-fileupload-azure'',
           ''title: '' @ dquote @ ''Streaming File Uploads to Azure Blob Storage with Spring ''
             @ ''Boot'' @ dquote,
           ''authors: brigitte'',
           ''tags: [spring-boot, kotlin, java, azure, blob-storage, '' @ ''fileupload]'',
           ''date: 2025-01-20'',
           ''description: '' @ dquote
             @ ''Memory-efficient processing of large uploads directly in '' @ ''Azure Storage''
             @ mdash @ ''without temporary storage in RAM.'' @ dquote,
           ''---'' ] \<rparr>"

definition en_terraform :: blog_post where
  "en_terraform =
     \<lparr> source_file = ''i18n/en/docusaurus-plugin-content-blog/2025-01-20-springboot-fileupload-azure.md'',
       first_line = 521,
       content_set = I18n_en,
       head_lines =
         [ ''---'',
           '''',
           ''slug: terraform-patterns-aks-azure'',
           ''title: '' @ ldquo @ ''Terraform Patterns for AKS & Azure'' @ dquote,
           ''authors: brigitte'',
           ''tags: [terraform, aks, azure, rbac, network-policy, '' @ ''modules, cicd]'',
           ''date: 2025-02-03'',
           ''description: '' @ ldquo @ ''Experiences with modular Terraform setups for AKS ''
             @ ndash @ '' from module design and RBAC to network policies and CI/CD.'' @ dquote,
           ''---'' ] \<rparr>"

definition en_field_filtering :: blog_post where
  "en_field_filtering =
     \<lparr> source_file = ''unnamed/part_001'',
       first_line = 1,
       content_set = I18n_en,
       head_lines =
         [ ''---'',
           ''slug: field-filtering-rest-jackson'',
           ''title: '' @ dquote @ ''Field-Filtering in REST-APIs with Jackson & ''
             @ ''@ControllerAdvice'' @ dquote,
           ''authors: brigitte'',
           ''tags: [spring-boot, kotlin, java, rest, jackson, json]'',
           ''date: 2025-02-17'',
           ''description: '' @ dquote
             @ ''Dynamic reduction of response fields via query parameters '' @ ndash
             @ '' an elegant solution with mixins and MappingJacksonValue.'' @ dquote,
           ''---'' ] \<rparr>"

definition en_aks_node_selection :: blog_post where
  "en_aks_node_selection =
     \<lparr> source_file = ''unnamed/part_001'',
       first_line = 167,
       content_set = I18n_en,
       head_lines =
         [ ''---'',
           ''slug: aks-node-selection'',
           ''title: '' @ dquote @ ''AKS Node Selection: Physical Pools vs. Virtual Nodes''
             @ dquote,
           ''authors: brigitte'',
           ''tags: [kubernetes, aks, azure, nodepool, virtual-node, '' @ ''scheduling]'',
           ''date: 2025-01-27'',
           ''description: '' @ dquote
             @ ''Strategies for running workloads in AKS preferentially on ''
             @ ''physical user nodes '' @ ndash @ '' with automatic fallback to virtual nodes.''
             @ dquote,
           ''---'' ] \<rparr>"

definition en_workload_identity :: blog_post where
  "en_workload_identity =
     \<lparr> source_file = ''unnamed/part_000'',
       first_line = 1,
       content_set = I18n_en,
       head_lines =
         [ ''---'',
           ''slug: workload-identity-lessons-learned'',
           ''title: '' @ dquote @ ''Workload Identity in AKS '' @ ndash @ '' Lessons Learned''
             @ dquote,
           ''authors: brigitte'',
           ''tags: [kubernetes, azure, aks, security, identity, '' @ ''lessons-learned]'',
           ''date: 2024-11-10'',
           ''description: '' @ dquote
             @ ''Setup, pitfalls, and best practices from real projects'' @ dquote,
           ''---'' ] \<rparr>"


definition blog_posts :: "blog_post list" where
  "blog_posts =
     [ de_springboot, de_aks_node_selection, de_field_filtering, de_terraform,
       de_workload_identity,
       en_springboot, en_terraform, en_field_filtering, en_aks_node_selection,
       en_workload_identity ]"

definition posts_in :: "content_set \<Rightarrow> blog_post list" where
  "posts_in cs = filter (\<lambda>p. content_set p = cs) blog_posts"

text \<open>
  Modelled from the spec: the framework's reader of the front matter is not in the
  repository. The spec describes the front matter as a metadata block prefixed to a
  document, with the fields slug, title, authors, tags, date and description. The
  first line must be the opening fence, the block runs to the next fence, and each
  line of it with a colon gives a key and the text after the colon. A line without a
  colon (a blank one) gives nothing.
\<close>

fun take_block :: "string list \<Rightarrow> string list option" where
  "take_block [] = None"
| "take_block (l # ls) =
     (if l = ''---'' then Some [] else map_option ((#) l) (take_block ls))"

definition front_matter_block :: "string list \<Rightarrow> string list option" where
  "front_matter_block ls =
     (case ls of
        [] \<Rightarrow> None
      | l # rest \<Rightarrow> if l = ''---'' then take_block rest else None)"

fun split_key :: "string \<Rightarrow> string \<Rightarrow> (string \<times> string) option" where
  "split_key acc [] = None"
| "split_key acc (c # cs) =
     (if c = CHR '':'' then Some (rev acc, dropWhile (\<lambda>b. b = CHR '' '') cs)
      else split_key (c # acc) cs)"

definition front_matter :: "string list \<Rightarrow> (string \<times> string) list option" where
  "front_matter ls = map_option (List.map_filter (split_key [])) (front_matter_block ls)"

definition meta :: "blog_post \<Rightarrow> string \<Rightarrow> string option" where
  "meta p k = Option.bind (front_matter (head_lines p)) (\<lambda>fm. map_of fm k)"

definition slug_of :: "blog_post \<Rightarrow> string option" where
  "slug_of p = meta p ''slug''"

text \<open>
  Two documents are versions of one post when the fields of the front matter that a
  translation keeps (date, authors, tags) are present and agree.
\<close>

definition same_post :: "blog_post \<Rightarrow> blog_post \<Rightarrow> bool" where
  "same_post a b =
     (meta a ''date'' \<noteq> None \<and> meta a ''date'' = meta b ''date''
      \<and> meta a ''authors'' = meta b ''authors'' \<and> meta a ''tags'' = meta b ''tags'')"

fun basename_from :: "string \<Rightarrow> string \<Rightarrow> string" where
  "basename_from acc [] = rev acc"
| "basename_from acc (c # cs) =
     (if c = CHR ''/'' then basename_from [] cs else basename_from (c # acc) cs)"

definition basename :: "string \<Rightarrow> string" where
  "basename path = basename_from [] path"

section \<open>Helper facts\<close>

declare string_of_nat.simps [simp del]

lemma digit_val_digit_char: "d < 10 \<Longrightarrow> digit_val (digit_char d) = d"
  by (simp add: digit_val_def digit_char_def)

lemma is_digit_digit_char: "d < 10 \<Longrightarrow> is_digit (digit_char d)"
  by (simp add: is_digit_def digit_char_def)

lemma nat_of_digits_snoc: "nat_of_digits (s @ [c]) = 10 * nat_of_digits s + digit_val c"
  by (simp add: nat_of_digits_def)

lemma nat_of_digits_string_of_nat: "nat_of_digits (string_of_nat n) = n"
proof (induction n rule: string_of_nat.induct)
  case (1 n)
  show ?case
  proof (cases "n < 10")
    case True
    then show ?thesis
      by (simp add: string_of_nat.simps [of n] nat_of_digits_def digit_val_digit_char)
  next
    case False
    with 1 show ?thesis
      by (simp add: string_of_nat.simps [of n] nat_of_digits_snoc digit_val_digit_char)
  qed
qed

lemma string_of_nat_inj: "string_of_nat a = string_of_nat b \<Longrightarrow> a = b"
  by (metis nat_of_digits_string_of_nat)

lemma string_of_nat_digits: "string_of_nat n \<noteq> [] \<and> list_all is_digit (string_of_nat n)"
proof (induction n rule: string_of_nat.induct)
  case (1 n)
  show ?case
  proof (cases "n < 10")
    case True
    then show ?thesis
      by (simp add: string_of_nat.simps [of n] is_digit_digit_char)
  next
    case False
    with 1 show ?thesis
      by (simp add: string_of_nat.simps [of n] is_digit_digit_char)
  qed
qed

lemma string_of_nat_no_minus: "string_of_nat n \<noteq> CHR ''-'' # s"
proof
  assume h: "string_of_nat n = CHR ''-'' # s"
  have "list_all is_digit (string_of_nat n)"
    using string_of_nat_digits by blast
  with h have "is_digit CHR ''-''" by simp
  then show False by (simp add: is_digit_def)
qed

lemma Number_toString_inj:
  assumes h: "Number_toString a = Number_toString b"
  shows "a = b"
proof -
  consider "a < 0" "b < 0" | "a < 0" "\<not> b < 0" | "\<not> a < 0" "b < 0" | "\<not> a < 0" "\<not> b < 0"
    by blast
  then show ?thesis
  proof cases
    case 1
    with h have "string_of_nat (nat (- a)) = string_of_nat (nat (- b))"
      by (simp add: Number_toString_def)
    then have "nat (- a) = nat (- b)" by (rule string_of_nat_inj)
    with 1 show ?thesis by simp
  next
    case 2
    with h show ?thesis
      using string_of_nat_no_minus [of "nat b" "string_of_nat (nat (- a))"]
      by (simp add: Number_toString_def)
  next
    case 3
    with h show ?thesis
      using string_of_nat_no_minus [of "nat a" "string_of_nat (nat (- b))"]
      by (simp add: Number_toString_def)
  next
    case 4
    with h have "string_of_nat (nat a) = string_of_nat (nat b)"
      by (simp add: Number_toString_def)
    then have "nat a = nat b" by (rule string_of_nat_inj)
    with 4 show ?thesis by simp
  qed
qed

lemma Number_toString_2025: "Number_toString 2025 = ''2025''"
  by (simp add: Number_toString_def string_of_nat.simps digit_char_def char_of_def
      bit_Suc_0_iff)

lemma copyright_config:
  "copyright (footer (themeConfig (config y))) =
     copyright_sign @ '' '' @ Number_toString y @ '' Brigitte B'' @ ouml @ ''hm''"
  by (simp add: config_def)

lemma config_inj:
  assumes "config y1 = config y2"
  shows "y1 = y2"
proof -
  from assms
  have "copyright (footer (themeConfig (config y1))) =
        copyright (footer (themeConfig (config y2)))"
    by simp
  then have "Number_toString y1 = Number_toString y2"
    by (simp add: copyright_config)
  then show ?thesis by (rule Number_toString_inj)
qed

lemma severities_config:
  "onBrokenLinks (config y) = Throw"
  "onBrokenMarkdownLinks (config y) = Warn"
  "preset_options (config y) ''classic'' \<noteq> None"
  "map_option (onInlineAuthors \<circ> blog) (preset_options (config y) ''classic'') = Some Warn"
  by (simp_all add: config_def preset_options_def)

lemma i18n_config:
  "defaultLocale (i18n (config y)) = ''en''"
  "locales (i18n (config y)) = [''en'']"
  by (simp_all add: config_def)

lemma length_Array_map_from: "length (Array_map_from i f xs) = length xs"
  by (induction xs arbitrary: i) simp_all

lemma Array_map_from_nth: "n < length xs \<Longrightarrow> Array_map_from i f xs ! n = f (xs ! n) (i + n)"
proof (induction xs arbitrary: i n)
  case Nil
  then show ?case by simp
next
  case (Cons x xs)
  then show ?case by (cases n) simp_all
qed

lemma map_cards_obs:
  assumes "\<And>k it. g (Keyed k (Feature it)) = h it"
  shows "map g (Array_map_from i (\<lambda>props idx. Keyed idx (Feature props)) fl) = map h fl"
  using assms by (induction fl arbitrary: i) simp_all

lemma keys_Array_map_from:
  "map key_of (Array_map_from i (\<lambda>props idx. Keyed idx (Feature props)) fl) =
     map Some [i..<i + length fl]"
proof (induction fl arbitrary: i)
  case Nil
  then show ?case by simp
next
  case (Cons x xs)
  then show ?case by (simp add: upt_rec)
qed

lemma cards_HomepageFeatures_of:
  "cards (HomepageFeatures_of fl) = Array_map (\<lambda>props idx. Keyed idx (Feature props)) fl"
  by (simp add: cards_def HomepageFeatures_of_def child_def)

lemma length_FeatureList: "length FeatureList = 3"
  by (simp add: FeatureList_def)

lemma unkeyed_card: "unkeyed (Keyed k (Feature it)) = Feature it"
  by (simp add: Feature_def)

lemma heading_card: "map_option text_of (card_heading (Keyed k (Feature it))) = Some (title it)"
  by (simp add: card_heading_def Feature_def child_def)

lemma paragraph_card:
  "map_option kids (card_paragraph (Keyed k (Feature it))) = Some [description it]"
  by (simp add: card_paragraph_def Feature_def child_def)

lemma row_fraction_Feature: "row_fraction (Feature it) = Some (1 / 3)"
  by (simp add: row_fraction_def Feature_def classes_of_def class_tokens_def clsx_def
      col_span_def parse_nat_def List.map_filter_def is_digit_def nat_of_digits_def
      digit_val_def grid_columns_def)

lemma row_fraction_Keyed: "row_fraction (Keyed k j) = row_fraction j"
  by (simp add: row_fraction_def classes_of_def)

lemma cards_HomepageFeatures:
  "cards HomepageFeatures =
     [ Keyed 0 (Feature (FeatureList ! 0)), Keyed 1 (Feature (FeatureList ! 1)),
       Keyed 2 (Feature (FeatureList ! 2)) ]"
  by (simp add: HomepageFeatures_def cards_HomepageFeatures_of Array_map_def FeatureList_def)

lemma meta_de_springboot:
  "meta de_springboot ''slug'' = Some ''springboot-fileupload-azure''"
  "meta de_springboot ''date'' = Some ''2025-01-20''"
  "meta de_springboot ''authors'' = Some ''brigitte''"
  "meta de_springboot ''tags'' = Some ''[spring-boot, kotlin, java, azure, blob-storage, fileupload]''"
  by code_simp+

lemma meta_de_aks_node_selection:
  "meta de_aks_node_selection ''slug'' = Some ''aks-node-selection''"
  "meta de_aks_node_selection ''date'' = Some ''2025-01-27''"
  "meta de_aks_node_selection ''authors'' = Some ''brigitte''"
  "meta de_aks_node_selection ''tags'' = Some ''[kubernetes, aks, azure, nodepool, virtual-node, scheduling]''"
  by code_simp+

lemma meta_de_field_filtering:
  "meta de_field_filtering ''slug'' = Some ''field-filtering-rest-jackson''"
  "meta de_field_filtering ''date'' = Some ''2025-02-17''"
  "meta de_field_filtering ''authors'' = Some ''brigitte''"
  "meta de_field_filtering ''tags'' = Some ''[spring-boot, kotlin, java, rest, jackson, json]''"
  by code_simp+

lemma meta_de_terraform:
  "meta de_terraform ''slug'' = Some ''terraform-patterns-aks-azure''"
  "meta de_terraform ''date'' = Some ''2025-02-03''"
  "meta de_terraform ''authors'' = Some ''brigitte''"
  "meta de_terraform ''tags'' = Some ''[terraform, aks, azure, rbac, network-policy, modules, cicd]''"
  by code_simp+

lemma meta_de_workload_identity:
  "meta de_workload_identity ''slug'' = Some ''workload-identity-lessons-learned''"
  "meta de_workload_identity ''date'' = Some ''2024-11-10''"
  "meta de_workload_identity ''authors'' = Some ''brigitte''"
  "meta de_workload_identity ''tags'' = Some ''[kubernetes, azure, aks, security, identity, lessons-learned]''"
  by code_simp+

lemma meta_en_springboot:
  "meta en_springboot ''slug'' = Some ''springboot-fileupload-azure''"
  "meta en_springboot ''date'' = Some ''2025-01-20''"
  "meta en_springboot ''authors'' = Some ''brigitte''"
  "meta en_springboot ''tags'' = Some ''[spring-boot, kotlin, java, azure, blob-storage, fileupload]''"
  by code_simp+

lemma meta_en_terraform:
  "meta en_terraform ''slug'' = Some ''terraform-patterns-aks-azure''"
  "meta en_terraform ''date'' = Some ''2025-02-03''"
  "meta en_terraform ''authors'' = Some ''brigitte''"
  "meta en_terraform ''tags'' = Some ''[terraform, aks, azure, rbac, network-policy, modules, cicd]''"
  by code_simp+

lemma meta_en_field_filtering:
  "meta en_field_filtering ''slug'' = Some ''field-filtering-rest-jackson''"
  "meta en_field_filtering ''date'' = Some ''2025-02-17''"
  "meta en_field_filtering ''authors'' = Some ''brigitte''"
  "meta en_field_filtering ''tags'' = Some ''[spring-boot, kotlin, java, rest, jackson, json]''"
  by code_simp+

lemma meta_en_aks_node_selection:
  "meta en_aks_node_selection ''slug'' = Some ''aks-node-selection''"
  "meta en_aks_node_selection ''date'' = Some ''2025-01-27''"
  "meta en_aks_node_selection ''authors'' = Some ''brigitte''"
  "meta en_aks_node_selection ''tags'' = Some ''[kubernetes, aks, azure, nodepool, virtual-node, scheduling]''"
  by code_simp+

lemma meta_en_workload_identity:
  "meta en_workload_identity ''slug'' = Some ''workload-identity-lessons-learned''"
  "meta en_workload_identity ''date'' = Some ''2024-11-10''"
  "meta en_workload_identity ''authors'' = Some ''brigitte''"
  "meta en_workload_identity ''tags'' = Some ''[kubernetes, azure, aks, security, identity, lessons-learned]''"
  by code_simp+

lemma posts_in_Blog_default:
  "posts_in Blog_default =
     [de_springboot, de_aks_node_selection, de_field_filtering, de_terraform,
      de_workload_identity]"
  by (simp add: posts_in_def blog_posts_def de_springboot_def de_aks_node_selection_def
      de_field_filtering_def de_terraform_def de_workload_identity_def en_springboot_def
      en_terraform_def en_field_filtering_def en_aks_node_selection_def
      en_workload_identity_def)

lemma posts_in_I18n_en:
  "posts_in I18n_en =
     [en_springboot, en_terraform, en_field_filtering, en_aks_node_selection,
      en_workload_identity]"
  by (simp add: posts_in_def blog_posts_def de_springboot_def de_aks_node_selection_def
      de_field_filtering_def de_terraform_def de_workload_identity_def en_springboot_def
      en_terraform_def en_field_filtering_def en_aks_node_selection_def
      en_workload_identity_def)

lemmas meta_posts =
  meta_de_springboot meta_de_aks_node_selection meta_de_field_filtering meta_de_terraform
  meta_de_workload_identity meta_en_springboot meta_en_terraform meta_en_field_filtering
  meta_en_aks_node_selection meta_en_workload_identity

lemma same_post_partners:
  "same_post de_springboot en_springboot"
  "same_post de_aks_node_selection en_aks_node_selection"
  "same_post de_field_filtering en_field_filtering"
  "same_post de_terraform en_terraform"
  "same_post de_workload_identity en_workload_identity"
  by (simp_all add: same_post_def meta_posts)

lemma same_post_slug:
  "\<forall>de\<in>set (posts_in Blog_default). \<forall>en\<in>set (posts_in I18n_en).
     same_post de en \<longrightarrow> slug_of de = slug_of en \<and> slug_of de \<noteq> None"
  by (simp add: posts_in_Blog_default posts_in_I18n_en same_post_def slug_of_def meta_posts)

section \<open>The feature grid\<close>

text \<open>
  C1. For every entry of the constant FeatureList, rendering HomepageFeatures produces
  exactly one Feature card, and the number of rendered cards equals the length of
  FeatureList, which is 3. The first conjunct says the same of any array the component
  could be given.
\<close>

theorem C1_one_card_per_entry:
  "length (cards (HomepageFeatures_of fl)) = length fl
   \<and> length (cards HomepageFeatures) = length FeatureList
   \<and> length FeatureList = 3
   \<and> (\<forall>e\<in>set FeatureList.
         length (filter (\<lambda>c. unkeyed c = Feature e) (cards HomepageFeatures)) = 1)"
proof (intro conjI)
  show "length (cards (HomepageFeatures_of fl)) = length fl"
    by (simp add: cards_HomepageFeatures_of Array_map_def length_Array_map_from)
  show "length (cards HomepageFeatures) = length FeatureList"
    by (simp add: HomepageFeatures_def cards_HomepageFeatures_of Array_map_def
        length_Array_map_from)
  show "length FeatureList = 3"
    by (rule length_FeatureList)
  show "\<forall>e\<in>set FeatureList.
          length (filter (\<lambda>c. unkeyed c = Feature e) (cards HomepageFeatures)) = 1"
    unfolding cards_HomepageFeatures
    by (simp add: unkeyed_card) (simp add: FeatureList_def Feature_def)
qed

theorem C1_one_card_per_entry_witness:
  "FeatureList ! 0 \<in> set FeatureList
   \<and> length (filter (\<lambda>c. unkeyed c = Feature (FeatureList ! 0)) (cards HomepageFeatures)) = 1"
proof -
  have m: "FeatureList ! 0 \<in> set FeatureList"
    by (simp add: FeatureList_def)
  have "\<forall>e\<in>set FeatureList.
          length (filter (\<lambda>c. unkeyed c = Feature e) (cards HomepageFeatures)) = 1"
    using C1_one_card_per_entry [of "[]"] by blast
  with m show ?thesis by blast
qed

text \<open>
  C2. The rendered cards appear in the order of the entries of the list (the entry at
  index 0 renders first), and each card shows its entry's title and description
  verbatim; a list of three entries titled A, B, C gives a row of three cards in that
  order.
\<close>

theorem C2_cards_in_list_order:
  "map unkeyed (cards (HomepageFeatures_of fl)) = map Feature fl
   \<and> (\<forall>i<length fl.
         cards (HomepageFeatures_of fl) ! i = Keyed i (Feature (fl ! i))
         \<and> map_option text_of (card_heading (cards (HomepageFeatures_of fl) ! i))
             = Some (title (fl ! i))
         \<and> map_option kids (card_paragraph (cards (HomepageFeatures_of fl) ! i))
             = Some [description (fl ! i)])
   \<and> map (map_option text_of \<circ> card_heading)
         (cards (HomepageFeatures_of
            [ \<lparr> title = ''A'', Svg = s1, description = d1 \<rparr>,
              \<lparr> title = ''B'', Svg = s2, description = d2 \<rparr>,
              \<lparr> title = ''C'', Svg = s3, description = d3 \<rparr> ]))
       = [Some ''A'', Some ''B'', Some ''C'']
   \<and> map (map_option kids \<circ> card_paragraph)
         (cards (HomepageFeatures_of
            [ \<lparr> title = ''A'', Svg = s1, description = d1 \<rparr>,
              \<lparr> title = ''B'', Svg = s2, description = d2 \<rparr>,
              \<lparr> title = ''C'', Svg = s3, description = d3 \<rparr> ]))
       = [Some [d1], Some [d2], Some [d3]]"
proof (intro conjI allI impI)
  show "map unkeyed (cards (HomepageFeatures_of fl)) = map Feature fl"
    unfolding cards_HomepageFeatures_of Array_map_def
    by (rule map_cards_obs) (rule unkeyed_card)
next
  fix i
  assume i: "i < length fl"
  then show nth: "cards (HomepageFeatures_of fl) ! i = Keyed i (Feature (fl ! i))"
    by (simp add: cards_HomepageFeatures_of Array_map_def Array_map_from_nth)
  show "map_option text_of (card_heading (cards (HomepageFeatures_of fl) ! i))
          = Some (title (fl ! i))"
    unfolding nth by (rule heading_card)
  show "map_option kids (card_paragraph (cards (HomepageFeatures_of fl) ! i))
          = Some [description (fl ! i)]"
    unfolding nth by (rule paragraph_card)
next
  show "map (map_option text_of \<circ> card_heading)
         (cards (HomepageFeatures_of
            [ \<lparr> title = ''A'', Svg = s1, description = d1 \<rparr>,
              \<lparr> title = ''B'', Svg = s2, description = d2 \<rparr>,
              \<lparr> title = ''C'', Svg = s3, description = d3 \<rparr> ]))
       = [Some ''A'', Some ''B'', Some ''C'']"
    by (simp add: cards_HomepageFeatures_of Array_map_def heading_card)
  show "map (map_option kids \<circ> card_paragraph)
         (cards (HomepageFeatures_of
            [ \<lparr> title = ''A'', Svg = s1, description = d1 \<rparr>,
              \<lparr> title = ''B'', Svg = s2, description = d2 \<rparr>,
              \<lparr> title = ''C'', Svg = s3, description = d3 \<rparr> ]))
       = [Some [d1], Some [d2], Some [d3]]"
    by (simp add: cards_HomepageFeatures_of Array_map_def paragraph_card)
qed

theorem C2_cards_in_list_order_witness:
  "(0::nat) < length FeatureList
   \<and> cards (HomepageFeatures_of FeatureList) ! 0 = Keyed 0 (Feature (FeatureList ! 0))
   \<and> map_option text_of (card_heading (cards (HomepageFeatures_of FeatureList) ! 0))
       = Some ''Was ich mache''
   \<and> map_option kids (card_paragraph (cards (HomepageFeatures_of FeatureList) ! 0))
       = Some [Fragment [Text ''Backend, Cloud, Data Platforms'']]"
proof -
  have l: "(0::nat) < length FeatureList"
    by (simp add: length_FeatureList)
  have t: "title (FeatureList ! 0) = ''Was ich mache''"
    and d: "description (FeatureList ! 0) = Fragment [Text ''Backend, Cloud, Data Platforms'']"
    by (simp_all add: FeatureList_def)
  have "\<forall>i<length FeatureList.
         cards (HomepageFeatures_of FeatureList) ! i = Keyed i (Feature (FeatureList ! i))
         \<and> map_option text_of (card_heading (cards (HomepageFeatures_of FeatureList) ! i))
             = Some (title (FeatureList ! i))
         \<and> map_option kids (card_paragraph (cards (HomepageFeatures_of FeatureList) ! i))
             = Some [description (FeatureList ! i)]"
    using C2_cards_in_list_order [of FeatureList] by blast
  with l have
    h: "cards (HomepageFeatures_of FeatureList) ! 0 = Keyed 0 (Feature (FeatureList ! 0))
     \<and> map_option text_of (card_heading (cards (HomepageFeatures_of FeatureList) ! 0))
         = Some (title (FeatureList ! 0))
     \<and> map_option kids (card_paragraph (cards (HomepageFeatures_of FeatureList) ! 0))
         = Some [description (FeatureList ! 0)]"
    by blast
  from l h [unfolded t d] show ?thesis by blast
qed

text \<open>
  C3. For every FeatureItem, Feature returns one centered block, the icon in its first
  part and the heading followed by the paragraph in its second, whose share of the row
  width fits the number of items shown: one third, with the three items of
  FeatureList and with any array of three items.
\<close>

theorem C3_feature_block:
  "(\<exists>icon_block text_block.
      kids (Feature item) = [icon_block, text_block]
      \<and> centered icon_block \<and> centered text_block
      \<and> map type_of (kids icon_block) = [Some (Component (Svg item))]
      \<and> map type_of (kids text_block) = [Some (Component ''@theme/Heading''), Some (Tag ''p'')]
      \<and> map text_of (kids text_block) = [title item, text_of (description item)])
   \<and> row_fraction (Feature item) = Some (1 / 3)
   \<and> row_fraction (Feature item) = Some (1 / of_nat (length FeatureList))
   \<and> (length fl = 3 \<longrightarrow>
        (\<forall>c\<in>set (cards (HomepageFeatures_of fl)).
           row_fraction c = Some (1 / of_nat (length fl))))"
proof (intro conjI impI)
  show "\<exists>icon_block text_block.
      kids (Feature item) = [icon_block, text_block]
      \<and> centered icon_block \<and> centered text_block
      \<and> map type_of (kids icon_block) = [Some (Component (Svg item))]
      \<and> map type_of (kids text_block) = [Some (Component ''@theme/Heading''), Some (Tag ''p'')]
      \<and> map text_of (kids text_block) = [title item, text_of (description item)]"
    by (simp add: Feature_def centered_def classes_of_def class_tokens_def)
  show "row_fraction (Feature item) = Some (1 / 3)"
    by (rule row_fraction_Feature)
  show "row_fraction (Feature item) = Some (1 / of_nat (length FeatureList))"
    by (simp add: row_fraction_Feature length_FeatureList)
next
  assume n: "length fl = 3"
  have "map row_fraction (cards (HomepageFeatures_of fl)) = map (\<lambda>it. Some (1 / 3)) fl"
    unfolding cards_HomepageFeatures_of Array_map_def
    by (rule map_cards_obs) (simp add: row_fraction_Keyed row_fraction_Feature)
  then have "set (map row_fraction (cards (HomepageFeatures_of fl))) \<subseteq> {Some (1 / 3)}"
    by auto
  with n show "\<forall>c\<in>set (cards (HomepageFeatures_of fl)).
                 row_fraction c = Some (1 / of_nat (length fl))"
    by auto
qed

theorem C3_feature_block_witness:
  "length FeatureList = 3
   \<and> Keyed 0 (Feature (FeatureList ! 0)) \<in> set (cards (HomepageFeatures_of FeatureList))
   \<and> row_fraction (Keyed 0 (Feature (FeatureList ! 0))) = Some (1 / 3)"
proof -
  have n: "length FeatureList = 3"
    by (rule length_FeatureList)
  have m: "Keyed 0 (Feature (FeatureList ! 0)) \<in> set (cards (HomepageFeatures_of FeatureList))"
    using cards_HomepageFeatures by (simp add: HomepageFeatures_def)
  have "length FeatureList = 3 \<longrightarrow>
        (\<forall>c\<in>set (cards (HomepageFeatures_of FeatureList)).
           row_fraction c = Some (1 / of_nat (length FeatureList)))"
    using C3_feature_block [of "FeatureList ! 0" FeatureList] by blast
  with n m have "row_fraction (Keyed 0 (Feature (FeatureList ! 0)))
                   = Some (1 / of_nat (length FeatureList))"
    by blast
  with n m show ?thesis by simp
qed

text \<open>
  C6. HomepageFeatures gives every card a positional key: the card of the entry at
  index i has key i, so the keys are 0 .. n - 1 in order and pairwise distinct.
\<close>

theorem C6_positional_keys:
  "map key_of (cards (HomepageFeatures_of fl)) = map Some [0..<length fl]
   \<and> distinct (map key_of (cards (HomepageFeatures_of fl)))
   \<and> (\<forall>i<length fl. key_of (cards (HomepageFeatures_of fl) ! i) = Some i)"
proof -
  have k: "map key_of (cards (HomepageFeatures_of fl)) = map Some [0..<length fl]"
    using keys_Array_map_from [of 0 fl]
    by (simp add: cards_HomepageFeatures_of Array_map_def)
  have d: "distinct (map key_of (cards (HomepageFeatures_of fl)))"
    unfolding k by (simp add: distinct_map)
  have "key_of (cards (HomepageFeatures_of fl) ! i) = Some i" if "i < length fl" for i
    using that by (simp add: cards_HomepageFeatures_of Array_map_def Array_map_from_nth)
  with k d show ?thesis by blast
qed

theorem C6_positional_keys_witness:
  "(2::nat) < length FeatureList \<and> key_of (cards (HomepageFeatures_of FeatureList) ! 2) = Some 2"
proof -
  have l: "(2::nat) < length FeatureList"
    by (simp add: length_FeatureList)
  have "\<forall>i<length FeatureList. key_of (cards (HomepageFeatures_of FeatureList) ! i) = Some i"
    using C6_positional_keys [of FeatureList] by blast
  with l show ?thesis by blast
qed

section \<open>The blog posts and the configuration\<close>

text \<open>
  C4, as the code has it. For every blog post the repository holds a German version,
  in the default content set, and an English version, in the English content set; the
  i18n configuration declares the one locale \<open>en\<close>, which is also the default locale.
\<close>

theorem C4_posts_in_both_languages:
  "(\<forall>de\<in>set (posts_in Blog_default). \<exists>en\<in>set (posts_in I18n_en). same_post de en)
   \<and> (\<forall>en\<in>set (posts_in I18n_en). \<exists>de\<in>set (posts_in Blog_default). same_post de en)
   \<and> locales (i18n (config year)) = [''en'']
   \<and> defaultLocale (i18n (config year)) = ''en''"
  using same_post_partners
  by (simp add: posts_in_Blog_default posts_in_I18n_en i18n_config)

theorem C4_posts_in_both_languages_witness:
  "de_terraform \<in> set (posts_in Blog_default)
   \<and> (\<exists>en\<in>set (posts_in I18n_en). same_post de_terraform en)"
proof -
  have m: "de_terraform \<in> set (posts_in Blog_default)"
    by (simp add: posts_in_Blog_default)
  have "\<forall>de\<in>set (posts_in Blog_default). \<exists>en\<in>set (posts_in I18n_en). same_post de en"
    using C4_posts_in_both_languages [of 2025] by blast
  with m show ?thesis by blast
qed

text \<open>
  C4, as the claim states it, fails: the configuration evaluated in 2025 lists the
  locale \<open>en\<close> alone, so a German locale is not among the configured ones.
\<close>

theorem C4_counterexample:
  "\<not> (''en'' \<in> set (locales (i18n (config 2025))) \<and> ''de'' \<in> set (locales (i18n (config 2025))))"
  by (simp add: i18n_config)

text \<open>
  C7. The front matter of every blog post declares a slug, and within each content
  set (the default, German one and the English one) no two posts have the same slug.
\<close>

theorem C7_slugs_unique_within_locale:
  "(\<forall>p\<in>set blog_posts. slug_of p \<noteq> None)
   \<and> distinct (map slug_of (posts_in Blog_default))
   \<and> distinct (map slug_of (posts_in I18n_en))
   \<and> length (posts_in Blog_default) = 5 \<and> length (posts_in I18n_en) = 5"
  by (simp add: blog_posts_def posts_in_Blog_default posts_in_I18n_en slug_of_def meta_posts)

theorem C7_slugs_unique_within_locale_witness:
  "en_aks_node_selection \<in> set blog_posts \<and> slug_of en_aks_node_selection \<noteq> None"
proof -
  have m: "en_aks_node_selection \<in> set blog_posts"
    by (simp add: blog_posts_def)
  have "\<forall>p\<in>set blog_posts. slug_of p \<noteq> None"
    using C7_slugs_unique_within_locale by blast
  with m show ?thesis by blast
qed

text \<open>
  C8. For every pair of a German and an English version of one post, both versions
  declare the same slug. Every German post has such an English version, and the pair
  whose two file names are known has the same file name in both content sets.
\<close>

theorem C8_localized_pairs_share_slug:
  "(\<forall>de\<in>set (posts_in Blog_default). \<forall>en\<in>set (posts_in I18n_en).
      same_post de en \<longrightarrow> slug_of de = slug_of en \<and> slug_of de \<noteq> None)
   \<and> (\<forall>de\<in>set (posts_in Blog_default). \<exists>en\<in>set (posts_in I18n_en). same_post de en)
   \<and> basename (source_file de_springboot) = basename (source_file en_springboot)
   \<and> slug_of de_springboot = slug_of en_springboot"
proof (intro conjI)
  show "\<forall>de\<in>set (posts_in Blog_default). \<forall>en\<in>set (posts_in I18n_en).
          same_post de en \<longrightarrow> slug_of de = slug_of en \<and> slug_of de \<noteq> None"
    by (rule same_post_slug)
  show "\<forall>de\<in>set (posts_in Blog_default). \<exists>en\<in>set (posts_in I18n_en). same_post de en"
    using same_post_partners by (simp add: posts_in_Blog_default posts_in_I18n_en)
  show "basename (source_file de_springboot) = basename (source_file en_springboot)"
    by (simp add: basename_def de_springboot_def en_springboot_def)
  show "slug_of de_springboot = slug_of en_springboot"
    by (simp add: slug_of_def meta_posts)
qed

theorem C8_localized_pairs_share_slug_witness:
  "de_springboot \<in> set (posts_in Blog_default) \<and> en_springboot \<in> set (posts_in I18n_en)
   \<and> same_post de_springboot en_springboot
   \<and> slug_of de_springboot = slug_of en_springboot
   \<and> slug_of de_springboot = Some ''springboot-fileupload-azure''"
proof -
  have a: "de_springboot \<in> set (posts_in Blog_default)"
    by (simp add: posts_in_Blog_default)
  have b: "en_springboot \<in> set (posts_in I18n_en)"
    by (simp add: posts_in_I18n_en)
  have c: "same_post de_springboot en_springboot"
    by (rule same_post_partners)
  have "\<forall>de\<in>set (posts_in Blog_default). \<forall>en\<in>set (posts_in I18n_en).
          same_post de en \<longrightarrow> slug_of de = slug_of en \<and> slug_of de \<noteq> None"
    using C8_localized_pairs_share_slug by blast
  with a b c have "slug_of de_springboot = slug_of en_springboot"
    by blast
  moreover have "slug_of de_springboot = Some ''springboot-fileupload-azure''"
    by (simp add: slug_of_def meta_posts)
  ultimately show ?thesis using a b c by blast
qed

text \<open>
  C9. The configuration reports a broken internal link at the level \<open>throw\<close>, so the
  build aborts as soon as an internal link has no target among the routes; broken
  Markdown links and inline authors are reported at the level \<open>warn\<close>, so the build
  completes with a warning.
\<close>

theorem C9_broken_links_throw:
  "onBrokenLinks (config year) = Throw
   \<and> onBrokenMarkdownLinks (config year) = Warn
   \<and> map_option (onInlineAuthors \<circ> blog) (preset_options (config year) ''classic'') = Some Warn
   \<and> ((\<exists>t\<in>set targets. t \<notin> set routes) \<longrightarrow>
        (\<exists>t. t \<in> set targets \<and> t \<notin> set routes
              \<and> check_internal_links (config year) routes targets = Aborted t))
   \<and> ((\<forall>t\<in>set targets. t \<in> set routes) \<longrightarrow>
        check_internal_links (config year) routes targets = Completed [])
   \<and> report (onBrokenMarkdownLinks (config year)) msg = Completed [msg]
   \<and> map_option (\<lambda>opts. report (onInlineAuthors (blog opts)) msg)
         (preset_options (config year) ''classic'') = Some (Completed [msg])"
proof (intro conjI impI)
  show "onBrokenLinks (config year) = Throw"
    and "onBrokenMarkdownLinks (config year) = Warn"
    and "map_option (onInlineAuthors \<circ> blog) (preset_options (config year) ''classic'')
           = Some Warn"
    by (rule severities_config)+
  show "report (onBrokenMarkdownLinks (config year)) msg = Completed [msg]"
    by (simp add: severities_config)
  show "map_option (\<lambda>opts. report (onInlineAuthors (blog opts)) msg)
         (preset_options (config year) ''classic'') = Some (Completed [msg])"
    by (simp add: config_def preset_options_def)
next
  assume "\<exists>t\<in>set targets. t \<notin> set routes"
  then have "filter (\<lambda>t. t \<notin> set routes) targets \<noteq> []"
    by (simp add: filter_empty_conv)
  then obtain t ts where f: "filter (\<lambda>t. t \<notin> set routes) targets = t # ts"
    by (cases "filter (\<lambda>t. t \<notin> set routes) targets") auto
  then have "t \<in> set (filter (\<lambda>t. t \<notin> set routes) targets)"
    by simp
  then have "t \<in> set targets \<and> t \<notin> set routes"
    by simp
  moreover from f have "check_internal_links (config year) routes targets = Aborted t"
    by (simp add: check_internal_links_def severities_config)
  ultimately show "\<exists>t. t \<in> set targets \<and> t \<notin> set routes
              \<and> check_internal_links (config year) routes targets = Aborted t"
    by blast
next
  assume "\<forall>t\<in>set targets. t \<in> set routes"
  then have "filter (\<lambda>t. t \<notin> set routes) targets = []"
    by (simp add: filter_empty_conv)
  then show "check_internal_links (config year) routes targets = Completed []"
    by (simp add: check_internal_links_def)
qed

theorem C9_broken_links_throw_witness:
  "''/blgo'' \<in> set [''/about'', ''/blgo''] \<and> ''/blgo'' \<notin> set [''/about'', ''/blog'']
   \<and> check_internal_links (config 2025) [''/about'', ''/blog''] [''/about'', ''/blgo'']
       = Aborted ''/blgo''
   \<and> set [''/blog''] \<subseteq> set [''/about'', ''/blog'']
   \<and> check_internal_links (config 2025) [''/about'', ''/blog''] [''/blog''] = Completed []"
proof -
  have a: "''/blgo'' \<in> set [''/about'', ''/blgo''] \<and> ''/blgo'' \<notin> set [''/about'', ''/blog'']"
    by simp
  then have a': "\<exists>t\<in>set [''/about'', ''/blgo'']. t \<notin> set [''/about'', ''/blog'']"
    by blast
  have b: "set [''/blog''] \<subseteq> set [''/about'', ''/blog'']"
    by simp
  then have b': "\<forall>t\<in>set [''/blog'']. t \<in> set [''/about'', ''/blog'']"
    by blast
  have "\<exists>t. t \<in> set [''/about'', ''/blgo''] \<and> t \<notin> set [''/about'', ''/blog'']
          \<and> check_internal_links (config 2025) [''/about'', ''/blog''] [''/about'', ''/blgo'']
              = Aborted t"
    using a' C9_broken_links_throw [of 2025 "[''/about'', ''/blgo'']" "[''/about'', ''/blog'']"]
    by blast
  then have c: "check_internal_links (config 2025) [''/about'', ''/blog''] [''/about'', ''/blgo'']
                  = Aborted ''/blgo''"
    by auto
  have d: "check_internal_links (config 2025) [''/about'', ''/blog''] [''/blog''] = Completed []"
    using b' C9_broken_links_throw [of 2025 "[''/blog'']" "[''/about'', ''/blog'']"]
    by blast
  from a b c d show ?thesis by blast
qed

text \<open>
  C10. The footer's copyright text is built from the year that the clock gives when
  the configuration is evaluated: evaluations in the same year give equal
  configuration objects, evaluations in different years give different ones, and so
  no single object is the configuration of every build.
\<close>

theorem C10_config_depends_on_year:
  "copyright (footer (themeConfig (config y))) =
     copyright_sign @ '' '' @ Number_toString y @ '' Brigitte B'' @ ouml @ ''hm''
   \<and> (config y1 = config y2) = (y1 = y2)
   \<and> \<not> (\<exists>c. \<forall>y. config y = c)"
proof (intro conjI)
  show "copyright (footer (themeConfig (config y))) =
     copyright_sign @ '' '' @ Number_toString y @ '' Brigitte B'' @ ouml @ ''hm''"
    by (rule copyright_config)
  show "(config y1 = config y2) = (y1 = y2)"
    using config_inj by blast
  show "\<not> (\<exists>c. \<forall>y. config y = c)"
  proof
    assume "\<exists>c. \<forall>y. config y = c"
    then obtain c where "\<forall>y. config y = c" ..
    then have "config 2025 = config 2026" by simp
    then have "(2025::int) = 2026" by (rule config_inj)
    then show False by simp
  qed
qed

theorem C10_config_depends_on_year_witness:
  "copyright (footer (themeConfig (config 2025))) =
     copyright_sign @ '' 2025 Brigitte B'' @ ouml @ ''hm''
   \<and> config 2025 \<noteq> config 2026 \<and> config 2025 = config (2024 + 1)"
  using C10_config_depends_on_year [of 2025 2025 2026]
    C10_config_depends_on_year [of 2025 2025 "2024 + 1"]
  by (simp add: Number_toString_2025)

end
